theory Spec2Isabelle
  imports Main
begin

section \<open>Vocabulary of the Go standard library used by the services\<close>

text \<open>
  The repository holds four Go programs: the plain demo server (\<open>app\<close>, no tracing), the
  same server with OpenTelemetry tracing and a periodic request generator (\<open>traced\<close>), the
  \<open>receiver\<close> (traced server on port 8081) and the \<open>sender\<close> (generator only). Go strings
  are byte strings; the Korean texts of the sources are written as their UTF-8 bytes.
\<close>

subsection \<open>fmt\<close>

text \<open>The values the programs pass to formatting verbs: ints, strings and errors (an error
  is represented by its message).\<close>

datatype fmt_arg = IntArg int | StrArg string | ErrArg string

definition digit :: "nat \<Rightarrow> char" where
  "digit n = ''0123456789'' ! n"

function dec_digits :: "nat \<Rightarrow> string" where
  "dec_digits n = (if n < 10 then [digit n] else dec_digits (n div 10) @ [digit (n mod 10)])"
  by pat_completeness auto
termination
  by (relation "measure (\<lambda>n. n)") auto

text \<open>\<open>%d\<close> of a Go int.\<close>

definition fmt_d :: "int \<Rightarrow> string" where
  "fmt_d i = (if i < 0 then CHR ''-'' # dec_digits (nat (- i)) else dec_digits (nat i))"

fun arg_type :: "fmt_arg \<Rightarrow> string" where
  "arg_type (IntArg i) = ''int''"
| "arg_type (StrArg s) = ''string''"
| "arg_type (ErrArg m) = ''*errors.errorString''"

fun arg_default :: "fmt_arg \<Rightarrow> string" where
  "arg_default (IntArg i) = fmt_d i"
| "arg_default (StrArg s) = s"
| "arg_default (ErrArg m) = m"

fun verb_ok :: "char \<Rightarrow> fmt_arg \<Rightarrow> bool" where
  "verb_ok v (IntArg i) = (v = CHR ''d'' \<or> v = CHR ''v'')"
| "verb_ok v (StrArg s) = (v = CHR ''s'' \<or> v = CHR ''v'')"
| "verb_ok v (ErrArg m) = (v = CHR ''v'' \<or> v = CHR ''s'' \<or> v = CHR ''w'')"

text \<open>One verb applied to one operand; a verb that does not fit the operand is printed the
  way fmt reports it, \<open>%!verb(type=value)\<close>.\<close>

definition verb :: "char \<Rightarrow> fmt_arg \<Rightarrow> string" where
  "verb v a =
     (if verb_ok v a then arg_default a
      else ''%!'' @ [v] @ ''('' @ arg_type a @ ''='' @ arg_default a @ '')'')"

text \<open>\<open>fmt.Sprintf\<close> for the verbs the programs use (\<open>%d\<close>, \<open>%s\<close>, \<open>%v\<close>, \<open>%w\<close> without flags).
  Operands left over after the last verb are not printed (fmt appends an \<open>%!(EXTRA ...)\<close>
  note; no call site of the programs passes more operands than verbs).\<close>

fun Sprintf :: "string \<Rightarrow> fmt_arg list \<Rightarrow> string" where
  "Sprintf [] args = []"
| "Sprintf [c] args = (if c = CHR ''%'' then ''%!(NOVERB)'' else [c])"
| "Sprintf (c # v # cs) args =
     (if c \<noteq> CHR ''%'' then c # Sprintf (v # cs) args
      else if v = CHR ''%'' then CHR ''%'' # Sprintf cs args
      else (case args of
              [] \<Rightarrow> ''%!'' @ [v] @ ''(MISSING)'' @ Sprintf cs []
            | a # as \<Rightarrow> verb v a @ Sprintf cs as))"

text \<open>\<open>fmt.Errorf\<close>: the new error's message.\<close>

definition Errorf :: "string \<Rightarrow> fmt_arg list \<Rightarrow> string" where
  "Errorf format args = Sprintf format args"

subsection \<open>net/http: requests and the response writer\<close>

record request =
  req_method :: string
  req_path :: string

text \<open>The \<open>http.ResponseWriter\<close> of one request. \<open>WriteHeader\<close> fixes the status code once
  (a second call is ignored); the first \<open>Write\<close> without a header sends 200; a handler that
  returns without writing gets 200 when the server finishes the request.\<close>

record response_writer =
  wrote_header :: bool
  status :: nat
  body :: string


definition WriteHeader :: "nat \<Rightarrow> response_writer \<Rightarrow> response_writer" where
  "WriteHeader code rw =
     (if wrote_header rw then rw else rw\<lparr>wrote_header := True, status := code\<rparr>)"

definition Write :: "string \<Rightarrow> response_writer \<Rightarrow> response_writer" where
  "Write bs rw =
     (let rw = (if wrote_header rw then rw else WriteHeader 200 rw)
      in rw\<lparr>body := body rw @ bs\<rparr>)"

definition Fprintf :: "response_writer \<Rightarrow> string \<Rightarrow> fmt_arg list \<Rightarrow> response_writer" where
  "Fprintf rw format args = Write (Sprintf format args) rw"


definition StatusOK :: nat where
  "StatusOK = 200"

definition StatusInternalServerError :: nat where
  "StatusInternalServerError = 500"

text \<open>A request built by \<open>http.NewRequestWithContext\<close> for the client.\<close>

record outbound =
  out_method :: string
  out_url :: string

subsection \<open>log, time, math/rand and the OpenTelemetry SDK\<close>

text \<open>A log line is kept as the call that wrote it: the format and its operands.
  Durations and opaque values are printed with \<open>%v\<close> only.\<close>

datatype log_arg = Fmt fmt_arg | Duration int | Opaque

type_synonym log_entry = "string \<times> log_arg list"

datatype attr_value = AString string | AInt int

text \<open>A span while it records, and a span after \<open>End\<close>. Times are nanoseconds.\<close>

record span =
  span_scope :: string
  span_name :: string
  start_time :: int
  attributes :: "(string \<times> attr_value) list"

record ended_span =
  span_of :: span
  end_time :: int

text \<open>What a handler or the generator can read and change: the state of the process-wide
  random generator, the clock, the spans handed to the span processor, the log and the
  requests given to the HTTP client. The clock
  of the model moves only when the program sleeps.\<close>

record 'g world =
  rng :: 'g
  now :: int
  ended :: "ended_span list"
  logs :: "log_entry list"
  sent :: "outbound list"

definition log_Printf :: "string \<Rightarrow> log_arg list \<Rightarrow> 'g world \<Rightarrow> 'g world" where
  "log_Printf format args w = w\<lparr>logs := logs w @ [(format, args)]\<rparr>"

definition Millisecond :: int where
  "Millisecond = 1000000"

definition Second :: int where
  "Second = 1000 * Millisecond"

text \<open>\<open>time.Sleep\<close> returns at once for a duration that is not positive.\<close>

definition time_Sleep :: "int \<Rightarrow> 'g world \<Rightarrow> 'g world" where
  "time_Sleep d w = (if d \<le> 0 then w else w\<lparr>now := now w + d\<rparr>)"

text \<open>\<open>rand.Intn\<close> and \<open>rand.Seed\<close> belong to math/rand, whose generator is not part of the
  repository: the programs are parameterised by them. \<open>Intn n g\<close> is the number drawn from
  generator state \<open>g\<close> and the state after the draw; \<open>Seed s\<close> is the state after seeding.\<close>

type_synonym 'g intn = "int \<Rightarrow> 'g \<Rightarrow> int \<times> 'g"

text \<open>The global \<open>tracer\<close> variable after \<open>initTracer\<close>: its instrumentation name.\<close>

type_synonym tracer = string

definition tracer_Start :: "tracer \<Rightarrow> string \<Rightarrow> 'g world \<Rightarrow> span" where
  "tracer_Start tr name w =
     \<lparr>span_scope = tr, span_name = name, start_time = now w, attributes = []\<rparr>"

text \<open>Setting an attribute replaces an earlier value of the same key.\<close>

definition SetAttributes :: "(string \<times> attr_value) \<Rightarrow> span \<Rightarrow> span" where
  "SetAttributes kv sp =
     sp\<lparr>attributes := filter (\<lambda>p. fst p \<noteq> fst kv) (attributes sp) @ [kv]\<rparr>"

definition span_End :: "span \<Rightarrow> 'g world \<Rightarrow> 'g world" where
  "span_End sp w = w\<lparr>ended := ended w @ [\<lparr>span_of = sp, end_time = now w\<rparr>]\<rparr>"

type_synonym 'g handler = "request \<Rightarrow> response_writer \<Rightarrow> 'g world \<Rightarrow> response_writer \<times> 'g world"


section \<open>The plain demo server (app, no tracing)\<close>

text \<open>Log formats and response bodies. In English: "home page request", "Hello, World! This
  is the monitoring test server.", "status check request", "status: OK", "slow response
  request", "slow response done! delay: %d ms", "error request", "500 error raised",
  "an internal server error occurred!", "no error occurred this time!".\<close>

definition fmt_home_request :: string where
  "fmt_home_request =
     [CHR 0xED, CHR 0x99, CHR 0x88, CHR 0xED, CHR 0x8E, CHR 0x98, CHR 0xEC, CHR 0x9D,
     CHR 0xB4, CHR 0xEC, CHR 0xA7, CHR 0x80] @ '' '' @ [CHR 0xEC, CHR 0x9A, CHR 0x94,
     CHR 0xEC, CHR 0xB2, CHR 0xAD] @ '': %s %s''"

definition app_home_body :: string where
  "app_home_body =
     ''Hello, World! '' @ [CHR 0xEB, CHR 0xAA, CHR 0xA8, CHR 0xEB, CHR 0x8B, CHR 0x88,
     CHR 0xED, CHR 0x84, CHR 0xB0, CHR 0xEB, CHR 0xA7, CHR 0x81] @ '' '' @ [CHR 0xED,
     CHR 0x85, CHR 0x8C, CHR 0xEC, CHR 0x8A, CHR 0xA4, CHR 0xED, CHR 0x8A, CHR 0xB8]
     @ '' '' @ [CHR 0xEC, CHR 0x84, CHR 0x9C, CHR 0xEB, CHR 0xB2, CHR 0x84, CHR 0xEC,
     CHR 0x9E, CHR 0x85, CHR 0xEB, CHR 0x8B, CHR 0x88, CHR 0xEB, CHR 0x8B, CHR 0xA4]
     @ ''.'' @ [CHR 0x0A]"

definition fmt_health_request :: string where
  "fmt_health_request =
     [CHR 0xEC, CHR 0x83, CHR 0x81, CHR 0xED, CHR 0x83, CHR 0x9C] @ '' '' @ [CHR 0xED,
     CHR 0x99, CHR 0x95, CHR 0xEC, CHR 0x9D, CHR 0xB8] @ '' '' @ [CHR 0xEC, CHR 0x9A,
     CHR 0x94, CHR 0xEC, CHR 0xB2, CHR 0xAD] @ '': %s %s''"

definition app_health_body :: string where
  "app_health_body =
     [CHR 0xEC, CHR 0x83, CHR 0x81, CHR 0xED, CHR 0x83, CHR 0x9C] @ '': '' @ [CHR 0xEC,
     CHR 0xA0, CHR 0x95, CHR 0xEC, CHR 0x83, CHR 0x81, CHR 0x0A]"

definition fmt_slow_request :: string where
  "fmt_slow_request =
     [CHR 0xEB, CHR 0x8A, CHR 0x90, CHR 0xEB, CHR 0xA6, CHR 0xB0] @ '' '' @ [CHR 0xEC,
     CHR 0x9D, CHR 0x91, CHR 0xEB, CHR 0x8B, CHR 0xB5] @ '' '' @ [CHR 0xEC, CHR 0x9A,
     CHR 0x94, CHR 0xEC, CHR 0xB2, CHR 0xAD] @ '': %s %s''"

definition fmt_slow_done :: string where
  "fmt_slow_done =
     [CHR 0xEB, CHR 0x8A, CHR 0x90, CHR 0xEB, CHR 0xA6, CHR 0xB0] @ '' '' @ [CHR 0xEC,
     CHR 0x9D, CHR 0x91, CHR 0xEB, CHR 0x8B, CHR 0xB5] @ '' '' @ [CHR 0xEC, CHR 0x99,
     CHR 0x84, CHR 0xEB, CHR 0xA3, CHR 0x8C] @ ''! '' @ [CHR 0xEC, CHR 0xA7, CHR 0x80,
     CHR 0xEC, CHR 0x97, CHR 0xB0] @ '' '' @ [CHR 0xEC, CHR 0x8B, CHR 0x9C, CHR 0xEA,
     CHR 0xB0, CHR 0x84] @ '': %d ms'' @ [CHR 0x0A]"

definition fmt_error_request :: string where
  "fmt_error_request =
     [CHR 0xEC, CHR 0x97, CHR 0x90, CHR 0xEB, CHR 0x9F, CHR 0xAC] @ '' '' @ [CHR 0xEB,
     CHR 0xB0, CHR 0x9C, CHR 0xEC, CHR 0x83, CHR 0x9D] @ '' '' @ [CHR 0xEC, CHR 0x9A,
     CHR 0x94, CHR 0xEC, CHR 0xB2, CHR 0xAD] @ '': %s %s''"

definition msg_error_500 :: string where
  "msg_error_500 =
     ''500 '' @ [CHR 0xEC, CHR 0x97, CHR 0x90, CHR 0xEB, CHR 0x9F, CHR 0xAC] @ '' ''
     @ [CHR 0xEB, CHR 0xB0, CHR 0x9C, CHR 0xEC, CHR 0x83, CHR 0x9D]"

definition error_body :: string where
  "error_body =
     [CHR 0xEB, CHR 0x82, CHR 0xB4, CHR 0xEB, CHR 0xB6, CHR 0x80] @ '' '' @ [CHR 0xEC,
     CHR 0x84, CHR 0x9C, CHR 0xEB, CHR 0xB2, CHR 0x84] @ '' '' @ [CHR 0xEC, CHR 0x98,
     CHR 0xA4, CHR 0xEB, CHR 0xA5, CHR 0x98, CHR 0xEA, CHR 0xB0, CHR 0x80] @ '' ''
     @ [CHR 0xEB, CHR 0xB0, CHR 0x9C, CHR 0xEC, CHR 0x83, CHR 0x9D, CHR 0xED, CHR 0x96,
     CHR 0x88, CHR 0xEC, CHR 0x8A, CHR 0xB5, CHR 0xEB, CHR 0x8B, CHR 0x88, CHR 0xEB,
     CHR 0x8B, CHR 0xA4] @ ''!'' @ [CHR 0x0A]"

definition no_error_body :: string where
  "no_error_body =
     [CHR 0xEC, CHR 0x9D, CHR 0xB4, CHR 0xEB, CHR 0xB2, CHR 0x88, CHR 0xEC, CHR 0x97,
     CHR 0x90, CHR 0xEB, CHR 0x8A, CHR 0x94] @ '' '' @ [CHR 0xEC, CHR 0x97, CHR 0x90,
     CHR 0xEB, CHR 0x9F, CHR 0xAC, CHR 0xEA, CHR 0xB0, CHR 0x80] @ '' '' @ [CHR 0xEB,
     CHR 0xB0, CHR 0x9C, CHR 0xEC, CHR 0x83, CHR 0x9D, CHR 0xED, CHR 0x95, CHR 0x98,
     CHR 0xEC, CHR 0xA7, CHR 0x80] @ '' '' @ [CHR 0xEC, CHR 0x95, CHR 0x8A, CHR 0xEC,
     CHR 0x95, CHR 0x98, CHR 0xEC, CHR 0x8A, CHR 0xB5, CHR 0xEB, CHR 0x8B, CHR 0x88,
     CHR 0xEB, CHR 0x8B, CHR 0xA4] @ ''!'' @ [CHR 0x0A]"


definition app_homeHandler :: "'g handler" where
  "app_homeHandler r rw w =
     (let w = log_Printf fmt_home_request
                [Fmt (StrArg (req_method r)), Fmt (StrArg (req_path r))] w;
          rw = Fprintf rw app_home_body []
      in (rw, w))"

definition app_healthHandler :: "'g handler" where
  "app_healthHandler r rw w =
     (let w = log_Printf fmt_health_request
                [Fmt (StrArg (req_method r)), Fmt (StrArg (req_path r))] w;
          rw = WriteHeader StatusOK rw;
          rw = Fprintf rw app_health_body []
      in (rw, w))"

definition app_slowResponseHandler :: "'g intn \<Rightarrow> 'g handler" where
  "app_slowResponseHandler Intn r rw w =
     (let w = log_Printf fmt_slow_request
                [Fmt (StrArg (req_method r)), Fmt (StrArg (req_path r))] w;
          (n, g) = Intn 1900 (rng w);
          w = w\<lparr>rng := g\<rparr>;
          delay = 100 + n;
          w = time_Sleep (delay * Millisecond) w;
          rw = Fprintf rw fmt_slow_done [IntArg delay]
      in (rw, w))"

definition app_errorHandler :: "'g intn \<Rightarrow> 'g handler" where
  "app_errorHandler Intn r rw w =
     (let w = log_Printf fmt_error_request
                [Fmt (StrArg (req_method r)), Fmt (StrArg (req_path r))] w;
          (n, g) = Intn 5 (rng w);
          w = w\<lparr>rng := g\<rparr>
      in if n = 0 then
           (let w = log_Printf msg_error_500 [] w;
                rw = WriteHeader StatusInternalServerError rw;
                rw = Fprintf rw error_body []
            in (rw, w))
         else
           (let rw = Fprintf rw no_error_body []
            in (rw, w)))"

section \<open>The traced demo server (app with OpenTelemetry)\<close>

text \<open>Every handler starts a span with the global tracer and ends it by \<open>defer\<close>, that is
  on every way out of the function.\<close>

definition traced_homeHandler :: "tracer \<Rightarrow> 'g handler" where
  "traced_homeHandler tr r rw w =
     (let sp = tracer_Start tr ''home-handler'' w;
          w = log_Printf fmt_home_request
                [Fmt (StrArg (req_method r)), Fmt (StrArg (req_path r))] w;
          sp = SetAttributes (''http.method'', AString (req_method r)) sp;
          rw = Fprintf rw app_home_body []
      in (rw, span_End sp w))"

definition traced_healthHandler :: "tracer \<Rightarrow> 'g handler" where
  "traced_healthHandler tr r rw w =
     (let sp = tracer_Start tr ''health-handler'' w;
          w = log_Printf fmt_health_request
                [Fmt (StrArg (req_method r)), Fmt (StrArg (req_path r))] w;
          rw = WriteHeader StatusOK rw;
          rw = Fprintf rw app_health_body []
      in (rw, span_End sp w))"

definition traced_slowResponseHandler :: "'g intn \<Rightarrow> tracer \<Rightarrow> 'g handler" where
  "traced_slowResponseHandler Intn tr r rw w =
     (let sp = tracer_Start tr ''slow-handler'' w;
          w = log_Printf fmt_slow_request
                [Fmt (StrArg (req_method r)), Fmt (StrArg (req_path r))] w;
          (n, g) = Intn 1900 (rng w);
          w = w\<lparr>rng := g\<rparr>;
          delay = 100 + n;
          sp = SetAttributes (''delay_ms'', AInt delay) sp;
          w = time_Sleep (delay * Millisecond) w;
          rw = Fprintf rw fmt_slow_done [IntArg delay]
      in (rw, span_End sp w))"

definition traced_errorHandler :: "'g intn \<Rightarrow> tracer \<Rightarrow> 'g handler" where
  "traced_errorHandler Intn tr r rw w =
     (let sp = tracer_Start tr ''error-handler'' w;
          w = log_Printf fmt_error_request
                [Fmt (StrArg (req_method r)), Fmt (StrArg (req_path r))] w;
          (n, g) = Intn 5 (rng w);
          w = w\<lparr>rng := g\<rparr>
      in if n = 0 then
           (let w = log_Printf msg_error_500 [] w;
                sp = SetAttributes (''error'', AString ''true'') sp;
                rw = WriteHeader StatusInternalServerError rw;
                rw = Fprintf rw error_body []
            in (rw, span_End sp w))
         else
           (let rw = Fprintf rw no_error_body []
            in (rw, span_End sp w)))"

section \<open>The receiver\<close>










section \<open>Routing and the tracing middleware\<close>








text \<open>The registrations made by \<open>main\<close>: \<open>http.HandleFunc(pattern, h)\<close> in the plain server,
  \<open>http.Handle(pattern, otelhttp.NewHandler(http.HandlerFunc(h), operation))\<close> in the traced
  ones.\<close>

datatype handler_name = HomeHandler | HealthHandler | SlowResponseHandler | ErrorHandler

record route =
  route_pattern :: string
  route_operation :: "string option"
  route_handler :: handler_name

fun app_handler :: "'g intn \<Rightarrow> handler_name \<Rightarrow> 'g handler" where
  "app_handler Intn HomeHandler = app_homeHandler"
| "app_handler Intn HealthHandler = app_healthHandler"
| "app_handler Intn SlowResponseHandler = app_slowResponseHandler Intn"
| "app_handler Intn ErrorHandler = app_errorHandler Intn"

fun traced_handler :: "'g intn \<Rightarrow> tracer \<Rightarrow> handler_name \<Rightarrow> 'g handler" where
  "traced_handler Intn tr HomeHandler = traced_homeHandler tr"
| "traced_handler Intn tr HealthHandler = traced_healthHandler tr"
| "traced_handler Intn tr SlowResponseHandler = traced_slowResponseHandler Intn tr"
| "traced_handler Intn tr ErrorHandler = traced_errorHandler Intn tr"








section \<open>Process start: configuration, tracer provider, main\<close>

type_synonym environ = "string \<rightharpoonup> string"

text \<open>\<open>os.Getenv\<close> gives the empty string for a variable that is not set.\<close>

definition os_Getenv :: "environ \<Rightarrow> string \<Rightarrow> string" where
  "os_Getenv env k = (case env k of None \<Rightarrow> [] | Some v \<Rightarrow> v)"

record tracer_provider =
  tp_endpoint :: string
  tp_service :: string
  tp_environment :: string

text \<open>What \<open>main\<close> and \<open>initTracer\<close> set up: the endpoints an exporter was built for, the
  registered tracer provider, the global tracer, the interval of the running generator, the
  registered routes, the listening address, whether the provider was shut down, the log.\<close>

record proc =
  exporter_calls :: "string list"
  provider :: "tracer_provider option"
  global_tracer :: "tracer option"
  generator :: "int option"
  routes :: "route list"
  listening :: "string option"
  shut_down :: bool
  plogs :: "log_entry list"

definition new_proc :: proc where
  "new_proc = \<lparr>exporter_calls = [], provider = None, global_tracer = None, generator = None,
     routes = [], listening = None, shut_down = False, plogs = []\<rparr>"

datatype panic = IndexOutOfRange int nat | NonPositiveInterval int

text \<open>How a process ended: \<open>os.Exit\<close> with a code (\<open>log.Fatalf\<close> exits with 1 and runs no
  deferred call; an unrecovered panic runs the deferred calls and exits with 2).\<close>

datatype halt = Exit nat

definition plog_Printf :: "string \<Rightarrow> log_arg list \<Rightarrow> proc \<Rightarrow> proc" where
  "plog_Printf format args p = p\<lparr>plogs := plogs p @ [(format, args)]\<rparr>"

text \<open>\<open>log.Println\<close> prints its operand in the default format.\<close>

definition plog_Println :: "string \<Rightarrow> proc \<Rightarrow> proc" where
  "plog_Println s p = plog_Printf ''%v'' [Fmt (StrArg s)] p"

definition log_Fatalf :: "string \<Rightarrow> log_arg list \<Rightarrow> proc \<Rightarrow> proc \<times> halt option" where
  "log_Fatalf format args p = (plog_Printf format args p, Some (Exit 1))"

text \<open>Texts: "creating the OTLP exporter failed", "creating the resource failed", "tracer
  initialisation failed", "the server starts on port %d...", "starting the server failed",
  the same two for the "receiving server", "the periodic dummy request generator has started
  (interval: %v)", "sender started. sending requests to the receiver.", "loading the AWS
  configuration failed", "the EC2 client is set up with AWS instrumentation", "querying the
  EC2 instances failed".\<close>

definition fmt_exporter_failed :: string where
  "fmt_exporter_failed =
     ''OTLP exporter '' @ [CHR 0xEC, CHR 0x83, CHR 0x9D, CHR 0xEC, CHR 0x84, CHR 0xB1]
     @ '' '' @ [CHR 0xEC, CHR 0x8B, CHR 0xA4, CHR 0xED, CHR 0x8C, CHR 0xA8] @ '': %w''"

definition fmt_resource_failed :: string where
  "fmt_resource_failed =
     [CHR 0xEB, CHR 0xA6, CHR 0xAC, CHR 0xEC, CHR 0x86, CHR 0x8C, CHR 0xEC, CHR 0x8A,
     CHR 0xA4] @ '' '' @ [CHR 0xEC, CHR 0x83, CHR 0x9D, CHR 0xEC, CHR 0x84, CHR 0xB1]
     @ '' '' @ [CHR 0xEC, CHR 0x8B, CHR 0xA4, CHR 0xED, CHR 0x8C, CHR 0xA8] @ '': %w''"

definition fmt_tracer_init_failed :: string where
  "fmt_tracer_init_failed =
     [CHR 0xED, CHR 0x8A, CHR 0xB8, CHR 0xEB, CHR 0xA0, CHR 0x88, CHR 0xEC, CHR 0x9D,
     CHR 0xB4, CHR 0xEC, CHR 0x84, CHR 0x9C] @ '' '' @ [CHR 0xEC, CHR 0xB4, CHR 0x88,
     CHR 0xEA, CHR 0xB8, CHR 0xB0, CHR 0xED, CHR 0x99, CHR 0x94] @ '' '' @ [CHR 0xEC,
     CHR 0x8B, CHR 0xA4, CHR 0xED, CHR 0x8C, CHR 0xA8] @ '': %v''"

definition fmt_server_starting :: string where
  "fmt_server_starting =
     [CHR 0xEC, CHR 0x84, CHR 0x9C, CHR 0xEB, CHR 0xB2, CHR 0x84, CHR 0xEA, CHR 0xB0,
     CHR 0x80] @ '' '' @ [CHR 0xED, CHR 0x8F, CHR 0xAC, CHR 0xED, CHR 0x8A, CHR 0xB8]
     @ '' %d'' @ [CHR 0xEC, CHR 0x97, CHR 0x90, CHR 0xEC, CHR 0x84, CHR 0x9C] @ '' ''
     @ [CHR 0xEC, CHR 0x8B, CHR 0x9C, CHR 0xEC, CHR 0x9E, CHR 0x91, CHR 0xEB, CHR 0x90,
     CHR 0xA9, CHR 0xEB, CHR 0x8B, CHR 0x88, CHR 0xEB, CHR 0x8B, CHR 0xA4] @ ''...''"

definition fmt_server_failed :: string where
  "fmt_server_failed =
     [CHR 0xEC, CHR 0x84, CHR 0x9C, CHR 0xEB, CHR 0xB2, CHR 0x84] @ '' '' @ [CHR 0xEC,
     CHR 0x8B, CHR 0x9C, CHR 0xEC, CHR 0x9E, CHR 0x91] @ '' '' @ [CHR 0xEC, CHR 0x8B,
     CHR 0xA4, CHR 0xED, CHR 0x8C, CHR 0xA8] @ '': %v''"

definition fmt_receiver_starting :: string where
  "fmt_receiver_starting =
     [CHR 0xEC, CHR 0x88, CHR 0x98, CHR 0xEC, CHR 0x8B, CHR 0xA0] @ '' '' @ [CHR 0xEC,
     CHR 0x84, CHR 0x9C, CHR 0xEB, CHR 0xB2, CHR 0x84, CHR 0xEA, CHR 0xB0, CHR 0x80]
     @ '' '' @ [CHR 0xED, CHR 0x8F, CHR 0xAC, CHR 0xED, CHR 0x8A, CHR 0xB8] @ '' %d''
     @ [CHR 0xEC, CHR 0x97, CHR 0x90, CHR 0xEC, CHR 0x84, CHR 0x9C] @ '' '' @ [CHR 0xEC,
     CHR 0x8B, CHR 0x9C, CHR 0xEC, CHR 0x9E, CHR 0x91, CHR 0xEB, CHR 0x90, CHR 0xA9,
     CHR 0xEB, CHR 0x8B, CHR 0x88, CHR 0xEB, CHR 0x8B, CHR 0xA4] @ ''...''"

definition fmt_receiver_failed :: string where
  "fmt_receiver_failed =
     [CHR 0xEC, CHR 0x88, CHR 0x98, CHR 0xEC, CHR 0x8B, CHR 0xA0] @ '' '' @ [CHR 0xEC,
     CHR 0x84, CHR 0x9C, CHR 0xEB, CHR 0xB2, CHR 0x84] @ '' '' @ [CHR 0xEC, CHR 0x8B,
     CHR 0x9C, CHR 0xEC, CHR 0x9E, CHR 0x91] @ '' '' @ [CHR 0xEC, CHR 0x8B, CHR 0xA4,
     CHR 0xED, CHR 0x8C, CHR 0xA8] @ '': %v''"

definition fmt_generator_started :: string where
  "fmt_generator_started =
     [CHR 0xEC, CHR 0xA3, CHR 0xBC, CHR 0xEA, CHR 0xB8, CHR 0xB0, CHR 0xEC, CHR 0xA0,
     CHR 0x81, CHR 0xEC, CHR 0x9D, CHR 0xB8] @ '' '' @ [CHR 0xEB, CHR 0x8D, CHR 0x94,
     CHR 0xEB, CHR 0xAF, CHR 0xB8] @ '' '' @ [CHR 0xEC, CHR 0x9A, CHR 0x94, CHR 0xEC,
     CHR 0xB2, CHR 0xAD] @ '' '' @ [CHR 0xEC, CHR 0x83, CHR 0x9D, CHR 0xEC, CHR 0x84,
     CHR 0xB1, CHR 0xEA, CHR 0xB8, CHR 0xB0, CHR 0xEA, CHR 0xB0, CHR 0x80] @ '' ''
     @ [CHR 0xEC, CHR 0x8B, CHR 0x9C, CHR 0xEC, CHR 0x9E, CHR 0x91, CHR 0xEB, CHR 0x90,
     CHR 0x98, CHR 0xEC, CHR 0x97, CHR 0x88, CHR 0xEC, CHR 0x8A, CHR 0xB5, CHR 0xEB,
     CHR 0x8B, CHR 0x88, CHR 0xEB, CHR 0x8B, CHR 0xA4] @ '' ('' @ [CHR 0xEA, CHR 0xB0,
     CHR 0x84, CHR 0xEA, CHR 0xB2, CHR 0xA9] @ '': %v)''"

definition msg_sender_started :: string where
  "msg_sender_started =
     ''sender '' @ [CHR 0xEC, CHR 0x8B, CHR 0x9C, CHR 0xEC, CHR 0x9E, CHR 0x91, CHR 0xEB,
     CHR 0x90, CHR 0xA8] @ ''. receiver'' @ [CHR 0xEB, CHR 0xA1, CHR 0x9C] @ '' ''
     @ [CHR 0xEC, CHR 0x9A, CHR 0x94, CHR 0xEC, CHR 0xB2, CHR 0xAD] @ '' '' @ [CHR 0xEC,
     CHR 0xA0, CHR 0x84, CHR 0xEC, CHR 0x86, CHR 0xA1] @ ''.''"

definition fmt_aws_failed :: string where
  "fmt_aws_failed =
     ''AWS '' @ [CHR 0xEC, CHR 0x84, CHR 0xA4, CHR 0xEC, CHR 0xA0, CHR 0x95] @ '' ''
     @ [CHR 0xEB, CHR 0xA1, CHR 0x9C, CHR 0xEB, CHR 0x93, CHR 0x9C] @ '' '' @ [CHR 0xEC,
     CHR 0x8B, CHR 0xA4, CHR 0xED, CHR 0x8C, CHR 0xA8] @ '': %v''"

definition fmt_ec2_ready :: string where
  "fmt_ec2_ready =
     ''EC2 '' @ [CHR 0xED, CHR 0x81, CHR 0xB4, CHR 0xEB, CHR 0x9D, CHR 0xBC, CHR 0xEC,
     CHR 0x9D, CHR 0xB4, CHR 0xEC, CHR 0x96, CHR 0xB8, CHR 0xED, CHR 0x8A, CHR 0xB8,
     CHR 0xEA, CHR 0xB0, CHR 0x80] @ '' AWS '' @ [CHR 0xEA, CHR 0xB3, CHR 0x84, CHR 0xEC,
     CHR 0xB8, CHR 0xA1, CHR 0xEC, CHR 0x9C, CHR 0xBC, CHR 0xEB, CHR 0xA1, CHR 0x9C]
     @ '' '' @ [CHR 0xEC, CHR 0x84, CHR 0xA4, CHR 0xEC, CHR 0xA0, CHR 0x95, CHR 0xEB,
     CHR 0x90, CHR 0x98, CHR 0xEC, CHR 0x97, CHR 0x88, CHR 0xEC, CHR 0x8A, CHR 0xB5,
     CHR 0xEB, CHR 0x8B, CHR 0x88, CHR 0xEB, CHR 0x8B, CHR 0xA4] @ '': %v''"

definition fmt_ec2_failed :: string where
  "fmt_ec2_failed =
     ''EC2 '' @ [CHR 0xEC, CHR 0x9D, CHR 0xB8, CHR 0xEC, CHR 0x8A, CHR 0xA4, CHR 0xED,
     CHR 0x84, CHR 0xB4, CHR 0xEC, CHR 0x8A, CHR 0xA4] @ '' '' @ [CHR 0xEC, CHR 0xA0,
     CHR 0x95, CHR 0xEB, CHR 0xB3, CHR 0xB4] @ '' '' @ [CHR 0xEC, CHR 0xA1, CHR 0xB0,
     CHR 0xED, CHR 0x9A, CHR 0x8C] @ '' '' @ [CHR 0xEC, CHR 0x8B, CHR 0xA4, CHR 0xED,
     CHR 0x8C, CHR 0xA8] @ '': %v''"

text \<open>\<open>initTracer\<close> is the same function in the three traced programs but for the service
  name, which is also the name of the tracer. The constructors of the SDK are parameters:
  \<open>otlptrace_New endpoint\<close> and \<open>resource_New service\<close> give the error, if any.\<close>

definition initTracer :: "string \<Rightarrow> environ \<Rightarrow> (string \<Rightarrow> string option)
    \<Rightarrow> (string \<Rightarrow> string option) \<Rightarrow> proc \<Rightarrow> (string + tracer_provider) \<times> proc" where
  "initTracer service env otlptrace_New resource_New p =
     (let tempoEndpoint = os_Getenv env ''TEMPO_ENDPOINT'';
          tempoEndpoint = (if tempoEndpoint = [] then ''tempo:4317'' else tempoEndpoint);
          p = p\<lparr>exporter_calls := exporter_calls p @ [tempoEndpoint]\<rparr>
      in case otlptrace_New tempoEndpoint of
           Some err \<Rightarrow> (Inl (Errorf fmt_exporter_failed [ErrArg err]), p)
         | None \<Rightarrow>
            (case resource_New service of
               Some err \<Rightarrow> (Inl (Errorf fmt_resource_failed [ErrArg err]), p)
             | None \<Rightarrow>
                (let tp = \<lparr>tp_endpoint = tempoEndpoint, tp_service = service,
                            tp_environment = ''dev''\<rparr>;
                     p = p\<lparr>provider := Some tp\<rparr>;
                     p = p\<lparr>global_tracer := Some service\<rparr>
                 in (Inr tp, p))))"

definition traced_initTracer :: "environ \<Rightarrow> (string \<Rightarrow> string option)
    \<Rightarrow> (string \<Rightarrow> string option) \<Rightarrow> proc \<Rightarrow> (string + tracer_provider) \<times> proc" where
  "traced_initTracer = initTracer ''monitoring-test-app''"

definition sender_initTracer :: "environ \<Rightarrow> (string \<Rightarrow> string option)
    \<Rightarrow> (string \<Rightarrow> string option) \<Rightarrow> proc \<Rightarrow> (string + tracer_provider) \<times> proc" where
  "sender_initTracer = initTracer ''monitoring-test-sender''"

definition receiver_initTracer :: "environ \<Rightarrow> (string \<Rightarrow> string option)
    \<Rightarrow> (string \<Rightarrow> string option) \<Rightarrow> proc \<Rightarrow> (string + tracer_provider) \<times> proc" where
  "receiver_initTracer = initTracer ''monitoring-test-receiver''"

definition tp_Shutdown :: "proc \<Rightarrow> proc" where
  "tp_Shutdown p = p\<lparr>shut_down := True\<rparr>"

definition http_Handle :: "string \<Rightarrow> string option \<Rightarrow> handler_name \<Rightarrow> proc \<Rightarrow> proc" where
  "http_Handle pat operation h p =
     p\<lparr>routes := routes p @
        [\<lparr>route_pattern = pat, route_operation = operation, route_handler = h\<rparr>]\<rparr>"

text \<open>\<open>time.NewTicker\<close> panics for an interval that is not positive. The goroutine that
  receives the ticks is \<open>ticker_loop\<close> below.\<close>

definition startPeriodicRequests :: "int \<Rightarrow> proc \<Rightarrow> panic + proc" where
  "startPeriodicRequests interval p =
     (if interval \<le> 0 then Inl (NonPositiveInterval interval)
      else Inr (plog_Printf fmt_generator_started [Duration interval]
                  (p\<lparr>generator := Some interval\<rparr>)))"

text \<open>\<open>http.ListenAndServe\<close> serves until it fails: the parameter gives the error with which
  it returns for an address, or \<open>None\<close> when it keeps serving, in which case \<open>main\<close> does not
  return. In every \<open>main\<close> the second component of the result is the exit of the process, or
  \<open>None\<close> while \<open>main\<close> has not returned.\<close>

definition app_main :: "(string \<Rightarrow> string option) \<Rightarrow> proc \<times> halt option" where
  "app_main ListenAndServe =
     (let p = new_proc;
          p = http_Handle ''/'' None HomeHandler p;
          p = http_Handle ''/health'' None HealthHandler p;
          p = http_Handle ''/slow'' None SlowResponseHandler p;
          p = http_Handle ''/error'' None ErrorHandler p;
          port = 8080;
          p = plog_Printf fmt_server_starting [Fmt (IntArg port)] p;
          addr = Sprintf '':%d'' [IntArg port]
      in case ListenAndServe addr of
           Some err \<Rightarrow> log_Fatalf fmt_server_failed [Fmt (ErrArg err)] p
         | None \<Rightarrow> (p\<lparr>listening := Some addr\<rparr>, None))"

definition receiver_main :: "environ \<Rightarrow> (string \<Rightarrow> string option) \<Rightarrow> (string \<Rightarrow> string option)
    \<Rightarrow> (string \<Rightarrow> string option) \<Rightarrow> proc \<times> halt option" where
  "receiver_main env otlptrace_New resource_New ListenAndServe =
     (case receiver_initTracer env otlptrace_New resource_New new_proc of
        (Inl err, p) \<Rightarrow> log_Fatalf fmt_tracer_init_failed [Fmt (ErrArg err)] p
      | (Inr tp, p) \<Rightarrow>
         (let p = http_Handle ''/'' (Some ''home'') HomeHandler p;
              p = http_Handle ''/health'' (Some ''health'') HealthHandler p;
              p = http_Handle ''/slow'' (Some ''slow'') SlowResponseHandler p;
              p = http_Handle ''/error'' (Some ''error'') ErrorHandler p;
              port = 8081;
              p = plog_Printf fmt_receiver_starting [Fmt (IntArg port)] p;
              addr = Sprintf '':%d'' [IntArg port]
          in case ListenAndServe addr of
               Some err \<Rightarrow> log_Fatalf fmt_receiver_failed [Fmt (ErrArg err)] p
             | None \<Rightarrow> (p\<lparr>listening := Some addr\<rparr>, None)))"

text \<open>The traced demo server also builds an AWS EC2 client; the two AWS calls are
  parameters giving their error, if any.\<close>

definition traced_main :: "environ \<Rightarrow> (string \<Rightarrow> string option) \<Rightarrow> (string \<Rightarrow> string option)
    \<Rightarrow> string option \<Rightarrow> string option \<Rightarrow> (string \<Rightarrow> string option) \<Rightarrow> proc \<times> halt option" where
  "traced_main env otlptrace_New resource_New LoadDefaultConfig DescribeInstances ListenAndServe =
     (case traced_initTracer env otlptrace_New resource_New new_proc of
        (Inl err, p) \<Rightarrow> log_Fatalf fmt_tracer_init_failed [Fmt (ErrArg err)] p
      | (Inr tp, p) \<Rightarrow>
         (let p = (case LoadDefaultConfig of
                     Some awsErr \<Rightarrow> plog_Printf fmt_aws_failed [Fmt (ErrArg awsErr)] p
                   | None \<Rightarrow>
                      (let p = plog_Printf fmt_ec2_ready [Opaque] p
                       in case DescribeInstances of
                            Some err \<Rightarrow> plog_Printf fmt_ec2_failed [Fmt (ErrArg err)] p
                          | None \<Rightarrow> p))
          in case startPeriodicRequests (5 * Second) p of
               Inl pn \<Rightarrow> (tp_Shutdown p, Some (Exit 2))
             | Inr p \<Rightarrow>
                (let p = http_Handle ''/'' (Some ''home'') HomeHandler p;
                     p = http_Handle ''/health'' (Some ''health'') HealthHandler p;
                     p = http_Handle ''/slow'' (Some ''slow'') SlowResponseHandler p;
                     p = http_Handle ''/error'' (Some ''error'') ErrorHandler p;
                     port = 8080;
                     p = plog_Printf fmt_server_starting [Fmt (IntArg port)] p;
                     addr = Sprintf '':%d'' [IntArg port]
                 in case ListenAndServe addr of
                      Some err \<Rightarrow> log_Fatalf fmt_server_failed [Fmt (ErrArg err)] p
                    | None \<Rightarrow> (p\<lparr>listening := Some addr\<rparr>, None))))"

text \<open>The sender's \<open>main\<close> ends in \<open>for { }\<close>, a loop with an empty body and no exit. The
  deferred shutdown of the tracer provider would run when \<open>main\<close> returns.\<close>

partial_function (option) busy_wait :: "proc \<Rightarrow> proc option" where
  "busy_wait p = busy_wait p"

definition sender_main :: "environ \<Rightarrow> (string \<Rightarrow> string option) \<Rightarrow> (string \<Rightarrow> string option)
    \<Rightarrow> proc \<times> halt option" where
  "sender_main env otlptrace_New resource_New =
     (case sender_initTracer env otlptrace_New resource_New new_proc of
        (Inl err, p) \<Rightarrow> log_Fatalf fmt_tracer_init_failed [Fmt (ErrArg err)] p
      | (Inr tp, p) \<Rightarrow>
         (case startPeriodicRequests (5 * Second) p of
            Inl pn \<Rightarrow> (tp_Shutdown p, Some (Exit 2))
          | Inr p \<Rightarrow>
             (let p = plog_Println msg_sender_started p
              in case busy_wait p of
                   None \<Rightarrow> (p, None)
                 | Some p' \<Rightarrow> (tp_Shutdown p', Some (Exit 0)))))"


section \<open>The periodic request generator\<close>

text \<open>Texts: "the environment variable RECEIVER_ENDPOINT is not set. Using the default
  http://localhost:8081.", "building the dummy request failed", "the dummy request failed",
  "dummy request done: %s, status: %d".\<close>

definition msg_receiver_unset :: string where
  "msg_receiver_unset =
     ''RECEIVER_ENDPOINT '' @ [CHR 0xED, CHR 0x99, CHR 0x98, CHR 0xEA, CHR 0xB2,
     CHR 0xBD] @ '' '' @ [CHR 0xEB, CHR 0xB3, CHR 0x80, CHR 0xEC, CHR 0x88, CHR 0x98,
     CHR 0xEA, CHR 0xB0, CHR 0x80] @ '' '' @ [CHR 0xEC, CHR 0x84, CHR 0xA4, CHR 0xEC,
     CHR 0xA0, CHR 0x95, CHR 0xEB, CHR 0x90, CHR 0x98, CHR 0xEC, CHR 0xA7, CHR 0x80]
     @ '' '' @ [CHR 0xEC, CHR 0x95, CHR 0x8A, CHR 0xEC, CHR 0x95, CHR 0x98, CHR 0xEC,
     CHR 0x8A, CHR 0xB5, CHR 0xEB, CHR 0x8B, CHR 0x88, CHR 0xEB, CHR 0x8B, CHR 0xA4]
     @ ''. '' @ [CHR 0xEA, CHR 0xB8, CHR 0xB0, CHR 0xEB, CHR 0xB3, CHR 0xB8, CHR 0xEA,
     CHR 0xB0, CHR 0x92] @ '' http://localhost:8081'' @ [CHR 0xEC, CHR 0x9D, CHR 0x84]
     @ '' '' @ [CHR 0xEC, CHR 0x82, CHR 0xAC, CHR 0xEC, CHR 0x9A, CHR 0xA9, CHR 0xED,
     CHR 0x95, CHR 0xA9, CHR 0xEB, CHR 0x8B, CHR 0x88, CHR 0xEB, CHR 0x8B, CHR 0xA4]
     @ ''.''"

definition fmt_dummy_build_failed :: string where
  "fmt_dummy_build_failed =
     [CHR 0xEB, CHR 0x8D, CHR 0x94, CHR 0xEB, CHR 0xAF, CHR 0xB8] @ '' '' @ [CHR 0xEC,
     CHR 0x9A, CHR 0x94, CHR 0xEC, CHR 0xB2, CHR 0xAD] @ '' '' @ [CHR 0xEC, CHR 0x83,
     CHR 0x9D, CHR 0xEC, CHR 0x84, CHR 0xB1] @ '' '' @ [CHR 0xEC, CHR 0x8B, CHR 0xA4,
     CHR 0xED, CHR 0x8C, CHR 0xA8] @ '': %v''"

definition fmt_dummy_failed :: string where
  "fmt_dummy_failed =
     [CHR 0xEB, CHR 0x8D, CHR 0x94, CHR 0xEB, CHR 0xAF, CHR 0xB8] @ '' '' @ [CHR 0xEC,
     CHR 0x9A, CHR 0x94, CHR 0xEC, CHR 0xB2, CHR 0xAD] @ '' '' @ [CHR 0xEC, CHR 0x8B,
     CHR 0xA4, CHR 0xED, CHR 0x8C, CHR 0xA8] @ '': %v''"

definition fmt_dummy_done :: string where
  "fmt_dummy_done =
     [CHR 0xEB, CHR 0x8D, CHR 0x94, CHR 0xEB, CHR 0xAF, CHR 0xB8] @ '' '' @ [CHR 0xEC,
     CHR 0x9A, CHR 0x94, CHR 0xEC, CHR 0xB2, CHR 0xAD] @ '' '' @ [CHR 0xEC, CHR 0x99,
     CHR 0x84, CHR 0xEB, CHR 0xA3, CHR 0x8C] @ '': %s, '' @ [CHR 0xEC, CHR 0x83,
     CHR 0x81, CHR 0xED, CHR 0x83, CHR 0x9C] @ '': %d''"

definition log_Println :: "string \<Rightarrow> 'g world \<Rightarrow> 'g world" where
  "log_Println s w = log_Printf ''%v'' [Fmt (StrArg s)] w"

text \<open>Indexing a slice panics outside its bounds.\<close>

definition index :: "'a list \<Rightarrow> int \<Rightarrow> panic + 'a" where
  "index xs i =
     (if 0 \<le> i \<and> i < int (length xs) then Inr (xs ! nat i)
      else Inl (IndexOutOfRange i (length xs)))"

text \<open>\<open>http.NewRequestWithContext\<close> with a context and the method GET fails only when the
  URL does not parse; \<open>url_Parse\<close> gives the parse error of a URL, if any.\<close>

definition NewRequestWithContext :: "(string \<Rightarrow> string option) \<Rightarrow> string \<Rightarrow> string
    \<Rightarrow> string + outbound" where
  "NewRequestWithContext url_Parse m u =
     (case url_Parse u of
        Some err \<Rightarrow> Inl err
      | None \<Rightarrow> Inr \<lparr>out_method = m, out_url = u\<rparr>)"

text \<open>One tick of the sender. \<open>env\<close> is the environment when the tick runs; \<open>Do\<close> is what
  the HTTP client meets when it sends the request: an error or the status code of the
  response. A panic unwinds through the deferred \<open>span.End\<close> and stops the process.\<close>

definition sender_generateDummyTraces :: "'g intn \<Rightarrow> tracer \<Rightarrow> (string \<Rightarrow> string option)
    \<Rightarrow> environ \<Rightarrow> (outbound \<Rightarrow> string + int) \<Rightarrow> 'g world \<Rightarrow> panic + 'g world" where
  "sender_generateDummyTraces Intn tr url_Parse env Do w =
     (let sp = tracer_Start tr ''periodic-dummy-request'' w;
          receiverEndpoint = os_Getenv env ''RECEIVER_ENDPOINT'';
          (receiverEndpoint, w) =
             (if receiverEndpoint = []
              then (''http://localhost:8081'', log_Println msg_receiver_unset w)
              else (receiverEndpoint, w));
          endpoints = [''/'', ''/health''];
          (i, g) = Intn (int (length endpoints)) (rng w);
          w = w\<lparr>rng := g\<rparr>
      in case index endpoints i of
           Inl pn \<Rightarrow> Inl pn
         | Inr endpoint \<Rightarrow>
            (let reqURL = Sprintf ''%s%s'' [StrArg receiverEndpoint, StrArg endpoint]
             in case NewRequestWithContext url_Parse ''GET'' reqURL of
                  Inl err \<Rightarrow>
                    Inr (span_End sp (log_Printf fmt_dummy_build_failed [Fmt (ErrArg err)] w))
                | Inr req \<Rightarrow>
                   (let sp = SetAttributes (''dummy.request.url'', AString reqURL) sp;
                        sp = SetAttributes (''dummy.request.type'', AString ''periodic'') sp;
                        w = w\<lparr>sent := sent w @ [req]\<rparr>
                    in case Do req of
                         Inl err \<Rightarrow>
                           Inr (span_End sp (log_Printf fmt_dummy_failed [Fmt (ErrArg err)] w))
                       | Inr code \<Rightarrow>
                           Inr (span_End sp
                                  (log_Printf fmt_dummy_done
                                     [Fmt (StrArg endpoint), Fmt (IntArg code)] w)))))"


text \<open>The goroutine of \<open>startPeriodicRequests\<close>: \<open>for { select { case <-ticker.C: ... } }\<close>.
  Receiving from the ticker waits for the next tick, one interval after the last. \<open>tick k\<close>
  is the call of \<open>generateDummyTraces\<close> at the \<open>k\<close>-th tick. The loop has no exit: it stops
  only if a tick panics.\<close>

definition ticker_recv :: "int \<Rightarrow> 'g world \<Rightarrow> 'g world" where
  "ticker_recv interval w = w\<lparr>now := now w + interval\<rparr>"


text \<open>The first \<open>n\<close> rounds of the same loop, from tick \<open>k\<close> on.\<close>

fun run_ticks :: "(nat \<Rightarrow> 'g world \<Rightarrow> panic + 'g world) \<Rightarrow> int \<Rightarrow> nat \<Rightarrow> nat
    \<Rightarrow> 'g world \<Rightarrow> panic + 'g world" where
  "run_ticks tick interval k 0 w = Inr w"
| "run_ticks tick interval k (Suc n) w =
     (case tick k (ticker_recv interval w) of
        Inl pn \<Rightarrow> Inl pn
      | Inr w' \<Rightarrow> run_ticks tick interval (Suc k) n w')"

text \<open>The ticks of the sender: the environment and the peer may differ from tick to tick.\<close>

definition sender_tick :: "'g intn \<Rightarrow> tracer \<Rightarrow> (string \<Rightarrow> string option) \<Rightarrow> (nat \<Rightarrow> environ)
    \<Rightarrow> (nat \<Rightarrow> outbound \<Rightarrow> string + int) \<Rightarrow> nat \<Rightarrow> 'g world \<Rightarrow> panic + 'g world" where
  "sender_tick Intn tr url_Parse envs peers k =
     sender_generateDummyTraces Intn tr url_Parse (envs k) (peers k)"


section \<open>The random generator\<close>


text \<open>The contract of \<open>rand.Intn\<close>: for a positive bound the number drawn lies in [0, n).\<close>

definition Intn_in_range :: "'g intn \<Rightarrow> bool" where
  "Intn_in_range Intn \<longleftrightarrow> (\<forall>n g. 0 < n \<longrightarrow> 0 \<le> fst (Intn n g) \<and> fst (Intn n g) < n)"

text \<open>A small generator that meets the contract, for concrete runs: the state is a counter,
  the number drawn is the counter modulo the bound.\<close>

definition counter_Intn :: "nat intn" where
  "counter_Intn n g = (int g mod n, Suc g)"


definition new_world :: "'g \<Rightarrow> 'g world" where
  "new_world g = \<lparr>rng = g, now = 0, ended = [], logs = [], sent = []\<rparr>"


section \<open>Notions used in the statements\<close>

text \<open>A configuration value: the value of the variable, or the default when the variable is
  not set or is empty.\<close>

definition config_value :: "environ \<Rightarrow> string \<Rightarrow> string \<Rightarrow> string" where
  "config_value env k dflt = (if os_Getenv env k = [] then dflt else os_Getenv env k)"


text \<open>Concrete surroundings for runs: library calls that succeed or fail, a peer that answers 200,
  a peer that is down, an environment in which \<open>RECEIVER_ENDPOINT\<close> changes after the first
  tick, and GET requests.\<close>

definition succeeds :: "string \<Rightarrow> string option" where
  "succeeds x = None"

definition refuses :: "string \<Rightarrow> string option" where
  "refuses x = Some ''connection refused''"

definition peer_200 :: "outbound \<Rightarrow> string + int" where
  "peer_200 req = Inr 200"


definition env_old :: environ where
  "env_old = [''RECEIVER_ENDPOINT'' \<mapsto> ''http://old:8081'']"

definition env_new :: environ where
  "env_new = [''RECEIVER_ENDPOINT'' \<mapsto> ''http://new:9090'']"

definition env_changing :: "nat \<Rightarrow> environ" where
  "env_changing k = (if k = 0 then env_old else env_new)"

definition peers_up :: "nat \<Rightarrow> outbound \<Rightarrow> string + int" where
  "peers_up k = peer_200"




section \<open>Verification\<close>


subsection \<open>Facts about the library vocabulary\<close>


















subsection \<open>The health route\<close>








subsection \<open>The plain and the traced demo server\<close>

lemma span_End_proj [simp]:
  "rng (span_End sp w) = rng w" "now (span_End sp w) = now w"
  "logs (span_End sp w) = logs w" "sent (span_End sp w) = sent w"
  "ended (span_End sp w) = ended w @ [\<lparr>span_of = sp, end_time = now w\<rparr>]"
  by (simp_all add: span_End_def)

lemma span_End_forget: "(span_End sp w)\<lparr>ended := es\<rparr> = w\<lparr>ended := es\<rparr>"
  by (simp add: span_End_def)

lemma log_Printf_proj [simp]:
  "rng (log_Printf f as w) = rng w" "now (log_Printf f as w) = now w"
  "ended (log_Printf f as w) = ended w" "sent (log_Printf f as w) = sent w"
  "logs (log_Printf f as w) = logs w @ [(f, as)]"
  by (simp_all add: log_Printf_def)

lemma time_Sleep_proj [simp]:
  "rng (time_Sleep d w) = rng w" "ended (time_Sleep d w) = ended w"
  "logs (time_Sleep d w) = logs w" "sent (time_Sleep d w) = sent w"
  "now (time_Sleep d w) = (if d \<le> 0 then now w else now w + d)"
  by (simp_all add: time_Sleep_def)

lemma ended_same: "ended w = es \<Longrightarrow> w\<lparr>ended := es\<rparr> = w"
  by simp

text \<open>
  C10. For every request, response writer and state, and with the random generator in the
  same state, each handler of the traced demo server leaves the response writer exactly as
  the handler of the same name of the plain demo server does (same status, same body), and
  the states after the two calls differ in nothing but the spans that were ended.
\<close>

theorem tracing_keeps_response:
  "fst (traced_handler Intn tr h r rw w) = fst (app_handler Intn h r rw w)
   \<and> (snd (traced_handler Intn tr h r rw w))\<lparr>ended := ended w\<rparr> = snd (app_handler Intn h r rw w)"
proof (cases h)
  case HomeHandler
  then show ?thesis
    by (simp add: traced_homeHandler_def app_homeHandler_def Let_def span_End_forget ended_same)
next
  case HealthHandler
  then show ?thesis
    by (simp add: traced_healthHandler_def app_healthHandler_def Let_def span_End_forget
        ended_same)
next
  case SlowResponseHandler
  then show ?thesis
    by (simp add: traced_slowResponseHandler_def app_slowResponseHandler_def Let_def split_def
        span_End_forget ended_same)
next
  case ErrorHandler
  then show ?thesis
    by (simp add: traced_errorHandler_def app_errorHandler_def Let_def split_def
        span_End_forget ended_same)
qed



subsection \<open>The error route\<close>












subsection \<open>The slow route\<close>

lemma counter_Intn_in_range: "Intn_in_range counter_Intn"
  by (simp add: Intn_in_range_def counter_Intn_def)













subsection \<open>Spans of handlers and routes\<close>










subsection \<open>Repeated requests for the error route\<close>








subsection \<open>Process start\<close>

lemma initTracer_exporter_fails:
  assumes "otlptrace_New (config_value env ''TEMPO_ENDPOINT'' ''tempo:4317'') = Some err"
  shows "initTracer service env otlptrace_New resource_New p
           = (Inl (Errorf fmt_exporter_failed [ErrArg err]),
              p\<lparr>exporter_calls := exporter_calls p
                    @ [config_value env ''TEMPO_ENDPOINT'' ''tempo:4317'']\<rparr>)"
  using assms by (simp add: initTracer_def config_value_def Let_def)

lemma initTracer_ok:
  assumes "otlptrace_New (config_value env ''TEMPO_ENDPOINT'' ''tempo:4317'') = None"
    and "resource_New service = None"
  shows "initTracer service env otlptrace_New resource_New p
           = (Inr \<lparr>tp_endpoint = config_value env ''TEMPO_ENDPOINT'' ''tempo:4317'',
                   tp_service = service, tp_environment = ''dev''\<rparr>,
              p\<lparr>exporter_calls := exporter_calls p
                    @ [config_value env ''TEMPO_ENDPOINT'' ''tempo:4317''],
                provider := Some \<lparr>tp_endpoint = config_value env ''TEMPO_ENDPOINT'' ''tempo:4317'',
                   tp_service = service, tp_environment = ''dev''\<rparr>,
                global_tracer := Some service\<rparr>)"
  using assms by (simp add: initTracer_def config_value_def Let_def)

lemma initTracer_exporter_calls:
  "exporter_calls (snd (initTracer service env otlptrace_New resource_New p))
     = exporter_calls p @ [config_value env ''TEMPO_ENDPOINT'' ''tempo:4317'']"
  by (simp add: initTracer_def config_value_def Let_def split: option.splits)

lemma busy_wait_Some: "busy_wait p = Some q \<Longrightarrow> False"
  by (rule busy_wait.raw_induct [where P = "\<lambda>_ _. False"])

lemma busy_wait_None: "busy_wait p = None"
  using busy_wait_Some [of p] by (cases "busy_wait p") auto

lemma start_5s:
  "startPeriodicRequests (5 * Second) p
     = Inr (plog_Printf fmt_generator_started [Duration 5000000000]
              (p\<lparr>generator := Some 5000000000\<rparr>))"
  by (simp add: startPeriodicRequests_def Second_def Millisecond_def)

text \<open>
  C6. If the construction of the OTLP exporter fails, \<open>initTracer\<close> returns an error that
  wraps the exporter's error, and \<open>main\<close> of each traced program logs it and exits with
  status 1. At that point the exporter was built for once, for the configured endpoint, and
  nothing else has happened: no tracer provider, no generator, no route, no listener.
\<close>

theorem exporter_failure_is_fatal:
  assumes "otlptrace_New (config_value env ''TEMPO_ENDPOINT'' ''tempo:4317'') = Some err"
  shows "fst (receiver_initTracer env otlptrace_New resource_New new_proc)
           = Inl (Errorf fmt_exporter_failed [ErrArg err])
       \<and> receiver_main env otlptrace_New resource_New ListenAndServe
           = (new_proc\<lparr>exporter_calls := [config_value env ''TEMPO_ENDPOINT'' ''tempo:4317''],
                plogs := [(fmt_tracer_init_failed,
                           [Fmt (ErrArg (Errorf fmt_exporter_failed [ErrArg err]))])]\<rparr>,
              Some (Exit 1))
       \<and> sender_main env otlptrace_New resource_New
           = (new_proc\<lparr>exporter_calls := [config_value env ''TEMPO_ENDPOINT'' ''tempo:4317''],
                plogs := [(fmt_tracer_init_failed,
                           [Fmt (ErrArg (Errorf fmt_exporter_failed [ErrArg err]))])]\<rparr>,
              Some (Exit 1))
       \<and> traced_main env otlptrace_New resource_New LoadDefaultConfig DescribeInstances
            ListenAndServe
           = (new_proc\<lparr>exporter_calls := [config_value env ''TEMPO_ENDPOINT'' ''tempo:4317''],
                plogs := [(fmt_tracer_init_failed,
                           [Fmt (ErrArg (Errorf fmt_exporter_failed [ErrArg err]))])]\<rparr>,
              Some (Exit 1))
       \<and> generator (fst (receiver_main env otlptrace_New resource_New ListenAndServe)) = None
       \<and> listening (fst (receiver_main env otlptrace_New resource_New ListenAndServe)) = None
       \<and> generator (fst (sender_main env otlptrace_New resource_New)) = None
       \<and> generator (fst (traced_main env otlptrace_New resource_New LoadDefaultConfig
                            DescribeInstances ListenAndServe)) = None
       \<and> listening (fst (traced_main env otlptrace_New resource_New LoadDefaultConfig
                            DescribeInstances ListenAndServe)) = None"
proof -
  note i = initTracer_exporter_fails [where otlptrace_New = otlptrace_New and env = env,
      OF assms]
  have r: "receiver_main env otlptrace_New resource_New ListenAndServe
           = (new_proc\<lparr>exporter_calls := [config_value env ''TEMPO_ENDPOINT'' ''tempo:4317''],
                plogs := [(fmt_tracer_init_failed,
                           [Fmt (ErrArg (Errorf fmt_exporter_failed [ErrArg err]))])]\<rparr>,
              Some (Exit 1))"
    by (simp add: receiver_main_def receiver_initTracer_def i log_Fatalf_def plog_Printf_def
        new_proc_def)
  have s: "sender_main env otlptrace_New resource_New
           = (new_proc\<lparr>exporter_calls := [config_value env ''TEMPO_ENDPOINT'' ''tempo:4317''],
                plogs := [(fmt_tracer_init_failed,
                           [Fmt (ErrArg (Errorf fmt_exporter_failed [ErrArg err]))])]\<rparr>,
              Some (Exit 1))"
    by (simp add: sender_main_def sender_initTracer_def i log_Fatalf_def plog_Printf_def
        new_proc_def)
  have t: "traced_main env otlptrace_New resource_New LoadDefaultConfig DescribeInstances
            ListenAndServe
           = (new_proc\<lparr>exporter_calls := [config_value env ''TEMPO_ENDPOINT'' ''tempo:4317''],
                plogs := [(fmt_tracer_init_failed,
                           [Fmt (ErrArg (Errorf fmt_exporter_failed [ErrArg err]))])]\<rparr>,
              Some (Exit 1))"
    by (simp add: traced_main_def traced_initTracer_def i log_Fatalf_def plog_Printf_def
        new_proc_def)
  have f: "fst (receiver_initTracer env otlptrace_New resource_New new_proc)
           = Inl (Errorf fmt_exporter_failed [ErrArg err])"
    by (simp add: receiver_initTracer_def i)
  show ?thesis
    by (simp only: r s t f) (simp add: new_proc_def)
qed

theorem exporter_failure_is_fatal_witness:
  "refuses (config_value Map.empty ''TEMPO_ENDPOINT'' ''tempo:4317'') = Some ''connection refused''
   \<and> receiver_main Map.empty refuses succeeds succeeds
       = (new_proc\<lparr>exporter_calls := [''tempo:4317''],
            plogs := [(fmt_tracer_init_failed,
                       [Fmt (ErrArg (Errorf fmt_exporter_failed [ErrArg ''connection refused'']))])]\<rparr>,
          Some (Exit 1))"
  using exporter_failure_is_fatal [of refuses Map.empty "''connection refused''" succeeds
      succeeds]
  by (simp add: refuses_def config_value_def os_Getenv_def)

lemma sender_main_ok:
  assumes "otlptrace_New (config_value env ''TEMPO_ENDPOINT'' ''tempo:4317'') = None"
    and "resource_New ''monitoring-test-sender'' = None"
  shows "sender_main env otlptrace_New resource_New
      = (plog_Println msg_sender_started
           (plog_Printf fmt_generator_started [Duration 5000000000]
              ((snd (sender_initTracer env otlptrace_New resource_New new_proc))
                  \<lparr>generator := Some 5000000000\<rparr>)), None)"
  using initTracer_ok [where otlptrace_New = otlptrace_New and env = env
      and resource_New = resource_New, OF assms]
  by (simp add: sender_main_def sender_initTracer_def start_5s busy_wait_None Let_def)

lemma sender_main_generator:
  assumes "otlptrace_New (config_value env ''TEMPO_ENDPOINT'' ''tempo:4317'') = None"
    and "resource_New ''monitoring-test-sender'' = None"
  shows "generator (fst (sender_main env otlptrace_New resource_New)) = Some (5 * Second)"
    and "\<not> shut_down (fst (sender_main env otlptrace_New resource_New))"
  using initTracer_ok [where otlptrace_New = otlptrace_New and env = env
      and resource_New = resource_New, OF assms]
  by (simp_all add: sender_main_ok [where otlptrace_New = otlptrace_New and env = env
        and resource_New = resource_New, OF assms] plog_Println_def plog_Printf_def
      sender_initTracer_def new_proc_def Second_def Millisecond_def)

text \<open>
  C9. When the tracer is set up, the sender's \<open>main\<close> starts the generator with an interval
  of five seconds and then never returns: its last statement is a loop that has no exit. The
  deferred shutdown of the tracer provider has not run in the state \<open>main\<close> stays in; and
  whatever happens at start, \<open>main\<close> neither returns normally nor runs the shutdown, since
  the only other way out is the fatal exit before the \<open>defer\<close>.
\<close>

theorem sender_main_never_returns:
  assumes "otlptrace_New (config_value env ''TEMPO_ENDPOINT'' ''tempo:4317'') = None"
    and "resource_New ''monitoring-test-sender'' = None"
  shows "busy_wait p = None
       \<and> snd (sender_main env otlptrace_New resource_New) = None
       \<and> generator (fst (sender_main env otlptrace_New resource_New)) = Some (5 * Second)
       \<and> \<not> shut_down (fst (sender_main env otlptrace_New resource_New))
       \<and> \<not> shut_down (fst (sender_main env' otlptrace_New' resource_New'))
       \<and> snd (sender_main env' otlptrace_New' resource_New') \<in> {None, Some (Exit 1)}"
proof -
  have g1: "snd (sender_main env otlptrace_New resource_New) = None"
    by (simp add: sender_main_ok [where otlptrace_New = otlptrace_New and env = env
        and resource_New = resource_New, OF assms])
  note g2 = sender_main_generator [where otlptrace_New = otlptrace_New and env = env
        and resource_New = resource_New, OF assms]
  from g1 g2 have g: "snd (sender_main env otlptrace_New resource_New) = None
       \<and> generator (fst (sender_main env otlptrace_New resource_New)) = Some (5 * Second)
       \<and> \<not> shut_down (fst (sender_main env otlptrace_New resource_New))"
    by (intro conjI)
  have u: "\<not> shut_down (fst (sender_main env' otlptrace_New' resource_New'))
       \<and> snd (sender_main env' otlptrace_New' resource_New') \<in> {None, Some (Exit 1)}"
    by (simp add: sender_main_def sender_initTracer_def initTracer_def start_5s busy_wait_None
        Let_def log_Fatalf_def plog_Println_def plog_Printf_def new_proc_def
        split: option.splits)
  from busy_wait_None [of p] g u show ?thesis by (simp only: simp_thms)
qed

theorem sender_main_never_returns_witness:
  "succeeds (config_value Map.empty ''TEMPO_ENDPOINT'' ''tempo:4317'') = None
   \<and> succeeds ''monitoring-test-sender'' = None
   \<and> snd (sender_main Map.empty succeeds succeeds) = None
   \<and> generator (fst (sender_main Map.empty succeeds succeeds)) = Some 5000000000
   \<and> \<not> shut_down (fst (sender_main Map.empty succeeds succeeds))"
  using sender_main_never_returns [of succeeds Map.empty succeeds]
  by (simp add: succeeds_def Second_def Millisecond_def)



subsection \<open>The generator\<close>

lemma Sprintf_concat: "Sprintf ''%s%s'' [StrArg a, StrArg b] = a @ b"
  by (simp add: verb_def)

lemma Sprintf_localhost:
  "Sprintf ''http://localhost:8080%s'' [StrArg b] = ''http://localhost:8080'' @ b"
  by (simp add: verb_def)

lemma Intn_2:
  assumes "Intn_in_range Intn"
  shows "fst (Intn 2 g) = 0 \<or> fst (Intn 2 g) = 1"
proof -
  have "0 \<le> fst (Intn 2 g) \<and> fst (Intn 2 g) < 2"
    using assms by (simp add: Intn_in_range_def)
  then show ?thesis by arith
qed


lemma index_in_range:
  "0 \<le> i \<Longrightarrow> i < int (length xs) \<Longrightarrow> index xs i = Inr (xs ! nat i)"
  by (simp add: index_def)

text \<open>What one tick of the sender does, in full.\<close>

lemma sender_tick_result:
  assumes "Intn_in_range Intn"
  shows "sender_generateDummyTraces Intn tr url_Parse env Do w =
     (let path = [''/'', ''/health''] ! nat (fst (Intn 2 (rng w)));
          url = config_value env ''RECEIVER_ENDPOINT'' ''http://localhost:8081'' @ path;
          w0 = (if os_Getenv env ''RECEIVER_ENDPOINT'' = []
                then log_Println msg_receiver_unset w else w)\<lparr>rng := snd (Intn 2 (rng w))\<rparr>;
          sp = tracer_Start tr ''periodic-dummy-request'' w;
          sp' = SetAttributes (''dummy.request.type'', AString ''periodic'')
                  (SetAttributes (''dummy.request.url'', AString url) sp);
          req = \<lparr>out_method = ''GET'', out_url = url\<rparr>
      in case url_Parse url of
           Some err \<Rightarrow> Inr (span_End sp (log_Printf fmt_dummy_build_failed [Fmt (ErrArg err)] w0))
         | None \<Rightarrow>
            (case Do req of
               Inl err \<Rightarrow>
                 Inr (span_End sp' (log_Printf fmt_dummy_failed [Fmt (ErrArg err)]
                                      (w0\<lparr>sent := sent w @ [req]\<rparr>)))
             | Inr code \<Rightarrow>
                 Inr (span_End sp' (log_Printf fmt_dummy_done
                                      [Fmt (StrArg path), Fmt (IntArg code)]
                                      (w0\<lparr>sent := sent w @ [req]\<rparr>)))))"
proof -
  have i: "index [''/'', ''/health''] (fst (Intn 2 (rng w)))
             = Inr ([''/'', ''/health''] ! nat (fst (Intn 2 (rng w))))"
    using Intn_2 [OF assms, of "rng w"] by (auto simp: index_def)
  show ?thesis
  proof (cases "os_Getenv env ''RECEIVER_ENDPOINT'' = []")
    case True
    then have cv: "config_value env ''RECEIVER_ENDPOINT'' ''http://localhost:8081''
        = ''http://localhost:8081''"
      by (simp add: config_value_def)
    show ?thesis
      unfolding cv
      using i True
      by (simp add: sender_generateDummyTraces_def Let_def split_def verb_def
          NewRequestWithContext_def log_Println_def split: option.splits sum.splits)
  next
    case False
    then have cv: "config_value env ''RECEIVER_ENDPOINT'' ''http://localhost:8081''
        = os_Getenv env ''RECEIVER_ENDPOINT''"
      by (simp add: config_value_def)
    show ?thesis
      unfolding cv
      using i False
      by (simp add: sender_generateDummyTraces_def Let_def split_def verb_def
          NewRequestWithContext_def log_Println_def split: option.splits sum.splits)
  qed
qed












subsection \<open>Configuration values\<close>

lemma plog_Printf_calls [simp]:
  "exporter_calls (plog_Printf f as p) = exporter_calls p"
  by (simp add: plog_Printf_def)

lemma http_Handle_calls [simp]:
  "exporter_calls (http_Handle pat operation h p) = exporter_calls p"
  by (simp add: http_Handle_def)

lemma main_calls:
  "exporter_calls (fst (receiver_main env otlptrace_New resource_New ListenAndServe))
     = [config_value env ''TEMPO_ENDPOINT'' ''tempo:4317'']"
  "exporter_calls (fst (sender_main env otlptrace_New resource_New))
     = [config_value env ''TEMPO_ENDPOINT'' ''tempo:4317'']"
  "exporter_calls (fst (traced_main env otlptrace_New resource_New LoadDefaultConfig
                          DescribeInstances ListenAndServe))
     = [config_value env ''TEMPO_ENDPOINT'' ''tempo:4317'']"
proof -
  have i: "exporter_calls (snd (initTracer service env otlptrace_New resource_New new_proc))
      = [config_value env ''TEMPO_ENDPOINT'' ''tempo:4317'']" for service
    by (simp add: initTracer_exporter_calls new_proc_def)
  show "exporter_calls (fst (receiver_main env otlptrace_New resource_New ListenAndServe))
     = [config_value env ''TEMPO_ENDPOINT'' ''tempo:4317'']"
    using i [of "''monitoring-test-receiver''"]
    by (cases "initTracer ''monitoring-test-receiver'' env otlptrace_New resource_New new_proc")
       (auto simp: receiver_main_def receiver_initTracer_def log_Fatalf_def Let_def
          split: sum.splits option.splits)
  show "exporter_calls (fst (sender_main env otlptrace_New resource_New))
     = [config_value env ''TEMPO_ENDPOINT'' ''tempo:4317'']"
    using i [of "''monitoring-test-sender''"]
    by (cases "initTracer ''monitoring-test-sender'' env otlptrace_New resource_New new_proc")
       (auto simp: sender_main_def sender_initTracer_def log_Fatalf_def Let_def start_5s
          busy_wait_None plog_Println_def split: sum.splits option.splits)
  show "exporter_calls (fst (traced_main env otlptrace_New resource_New LoadDefaultConfig
                          DescribeInstances ListenAndServe))
     = [config_value env ''TEMPO_ENDPOINT'' ''tempo:4317'']"
    using i [of "''monitoring-test-app''"]
    by (cases "initTracer ''monitoring-test-app'' env otlptrace_New resource_New new_proc")
       (auto simp: traced_main_def traced_initTracer_def log_Fatalf_def Let_def start_5s
          split: sum.splits option.splits)
qed

text \<open>
  C1, as the programs behave. \<open>TEMPO_ENDPOINT\<close> is read by \<open>initTracer\<close>, which \<open>main\<close> calls
  once when the process starts: in every run of the receiver, the sender and the traced demo
  server exactly one exporter is built, for the value the variable has at that moment or for
  \<open>tempo:4317\<close> when it is unset or empty. \<open>RECEIVER_ENDPOINT\<close> is not read at start: every
  tick of the sender's generator reads it, so the request of a tick goes to the value the
  variable has at that tick, or to \<open>http://localhost:8081\<close> when it is unset or empty (and
  then the tick logs one line more, the notice that the default is used).
\<close>

theorem endpoints_as_read:
  assumes "Intn_in_range Intn"
  shows "exporter_calls (fst (receiver_main env otlptrace_New resource_New ListenAndServe))
           = [config_value env ''TEMPO_ENDPOINT'' ''tempo:4317'']
       \<and> exporter_calls (fst (sender_main env otlptrace_New resource_New))
           = [config_value env ''TEMPO_ENDPOINT'' ''tempo:4317'']
       \<and> exporter_calls (fst (traced_main env otlptrace_New resource_New LoadDefaultConfig
                                DescribeInstances ListenAndServe))
           = [config_value env ''TEMPO_ENDPOINT'' ''tempo:4317'']
       \<and> (let path = [''/'', ''/health''] ! nat (fst (Intn 2 (rng w)));
               url = config_value (envs k) ''RECEIVER_ENDPOINT'' ''http://localhost:8081'' @ path
           in \<exists>w'. sender_tick Intn tr url_Parse envs peers k w = Inr w'
                \<and> sent w' = (if url_Parse url = None
                              then sent w @ [\<lparr>out_method = ''GET'', out_url = url\<rparr>]
                              else sent w)
                \<and> length (logs w')
                    = length (logs w)
                      + (if os_Getenv (envs k) ''RECEIVER_ENDPOINT'' = [] then 2 else 1))"
proof -
  have t: "let path = [''/'', ''/health''] ! nat (fst (Intn 2 (rng w)));
               url = config_value (envs k) ''RECEIVER_ENDPOINT'' ''http://localhost:8081'' @ path
           in \<exists>w'. sender_tick Intn tr url_Parse envs peers k w = Inr w'
                \<and> sent w' = (if url_Parse url = None
                              then sent w @ [\<lparr>out_method = ''GET'', out_url = url\<rparr>]
                              else sent w)
                \<and> length (logs w')
                    = length (logs w)
                      + (if os_Getenv (envs k) ''RECEIVER_ENDPOINT'' = [] then 2 else 1)"
    by (simp add: sender_tick_def sender_tick_result [OF assms] Let_def log_Println_def
        split: option.splits sum.splits)
  note c = main_calls [where env = env and otlptrace_New = otlptrace_New
      and resource_New = resource_New]
  from c(1) [of ListenAndServe] c(2) c(3) [of LoadDefaultConfig DescribeInstances ListenAndServe] t
  show ?thesis by (intro conjI)
qed

theorem endpoints_as_read_witness:
  "Intn_in_range counter_Intn
   \<and> exporter_calls (fst (sender_main env_new succeeds succeeds)) = [''tempo:4317'']
   \<and> (\<exists>w'. sender_tick counter_Intn ''monitoring-test-sender'' succeeds env_changing peers_up 1
              (new_world 1) = Inr w'
          \<and> sent w' = [\<lparr>out_method = ''GET'', out_url = ''http://new:9090/health''\<rparr>]
          \<and> length (logs w') = 1)"
  using endpoints_as_read [where Intn = counter_Intn and env = env_new
      and otlptrace_New = succeeds and resource_New = succeeds and ListenAndServe = succeeds
      and LoadDefaultConfig = None and DescribeInstances = None and w = "new_world 1"
      and envs = env_changing and k = 1 and tr = "''monitoring-test-sender''"
      and url_Parse = succeeds and peers = peers_up, OF counter_Intn_in_range]
  by (simp add: counter_Intn_in_range config_value_def os_Getenv_def env_new_def
      env_changing_def counter_Intn_def new_world_def succeeds_def Let_def)

text \<open>
  C1 as stated fails: the sender is started while \<open>RECEIVER_ENDPOINT\<close> is
  \<open>http://old:8081\<close>, the first tick still sees that value, then the variable changes; the
  second tick sends its request to the new address, not to the one in force at start.
\<close>

theorem receiver_endpoint_reread_counterexample:
  "snd (sender_main env_old succeeds succeeds) = None
   \<and> config_value env_old ''RECEIVER_ENDPOINT'' ''http://localhost:8081'' = ''http://old:8081''
   \<and> map out_url
        (sent (projr (run_ticks (sender_tick counter_Intn ''monitoring-test-sender'' succeeds
                                   env_changing peers_up)
                        (5 * Second) 0 2 (new_world 0))))
       = [''http://old:8081/'', ''http://new:9090/health'']"
proof -
  have m: "snd (sender_main env_old succeeds succeeds) = None"
    by (simp add: sender_main_ok [where otlptrace_New = succeeds and resource_New = succeeds]
        succeeds_def)
  have c: "config_value env_old ''RECEIVER_ENDPOINT'' ''http://localhost:8081''
             = ''http://old:8081''"
    by (simp add: config_value_def os_Getenv_def env_old_def)
  have u: "map out_url
        (sent (projr (run_ticks (sender_tick counter_Intn ''monitoring-test-sender'' succeeds
                                   env_changing peers_up)
                        (5 * Second) 0 2 (new_world 0))))
       = [''http://old:8081/'', ''http://new:9090/health'']"
    by (simp add: numeral_2_eq_2 sender_tick_def sender_tick_result [OF counter_Intn_in_range]
        Let_def env_changing_def env_old_def env_new_def config_value_def os_Getenv_def
        counter_Intn_def succeeds_def peers_up_def peer_200_def ticker_recv_def new_world_def)
  from m c u show ?thesis by (intro conjI)
qed


end
